theory Spec2Isabelle
  imports Complex_Main "HOL-Library.Sublist"
begin

section \<open>Python values of the two services\<close>

text \<open>
  A Python \<open>str\<close> is a \<open>string\<close>: one \<open>char\<close> stands for one character of the Python
  string, so \<open>length\<close> is Python's \<open>len\<close> and \<open>take n\<close> is the slice \<open>[:n]\<close>. The two
  pictographs of the message literals are outside ASCII and are written as their UTF-8
  bytes. A Python \<open>float\<close> is the real number it denotes. An \<open>Optional[str]\<close> field is a
  \<open>string option\<close>.

  A raised exception is the \<open>Inl\<close> of a result; a handler that raises \<open>HTTPException\<close>
  answers the request with that status code and detail.
\<close>

datatype exn =
    HTTPException nat string
  | RequestValidationError string
  | PyError string string

text \<open>\<open>try: body except Exception as e: handler\<close>: every exception class of \<open>exn\<close>
  derives from \<open>Exception\<close>, \<open>HTTPException\<close> included.\<close>

definition try_except :: "exn + 'a \<Rightarrow> (exn \<Rightarrow> exn + 'a) \<Rightarrow> exn + 'a" where
  "try_except body handler = (case body of Inl e \<Rightarrow> handler e | Inr v \<Rightarrow> Inr v)"

text \<open>\<open>sep.join(parts)\<close>\<close>

fun join :: "string \<Rightarrow> string list \<Rightarrow> string" where
  "join sep [] = []"
| "join sep [x] = x"
| "join sep (x # y # ys) = x @ sep @ join sep (y # ys)"

section \<open>The analysis service (ML/main.py)\<close>

subsection \<open>Request and text preparation\<close>

record PhishingAnalysisRequest =
  req_url :: string
  req_text :: "string option"
  req_title :: "string option"

text \<open>The body of a POST, before validation: a field is absent (or null) or holds a
  string. The request class declares \<open>url: str\<close> with no default and no constraint, and
  \<open>text\<close>, \<open>title\<close> as \<open>Optional[str] = None\<close>.\<close>

record raw_body =
  raw_url :: "string option"
  raw_text :: "string option"
  raw_title :: "string option"

definition validate_request :: "raw_body \<Rightarrow> exn + PhishingAnalysisRequest" where
  "validate_request b =
     (case raw_url b of
        None \<Rightarrow> Inl (RequestValidationError ''url: field required'')
      | Some u \<Rightarrow> Inr \<lparr>req_url = u, req_text = raw_text b, req_title = raw_title b\<rparr>)"

text \<open>The truth value of an \<open>Optional[str]\<close> in a condition: \<open>None\<close> and the empty
  string are false.\<close>

definition truthy :: "string option \<Rightarrow> bool" where
  "truthy v = (case v of None \<Rightarrow> False | Some s \<Rightarrow> s \<noteq> [])"

text \<open>The list \<open>text_parts\<close> that \<open>_prepare_text_for_analysis\<close> builds, statement by
  statement.\<close>

definition text_parts :: "PhishingAnalysisRequest \<Rightarrow> string list" where
  "text_parts request =
     (let text_parts = [];
          text_parts =
            (if req_url request \<noteq> [] then text_parts @ [''URL: '' @ req_url request]
             else text_parts);
          text_parts =
            (case req_title request of
               None \<Rightarrow> text_parts
             | Some t \<Rightarrow> if t \<noteq> [] then text_parts @ [''Title: '' @ t] else text_parts);
          text_parts =
            (case req_text request of
               None \<Rightarrow> text_parts
             | Some x \<Rightarrow>
                 if x \<noteq> [] then
                   (let text_content = (if length x > 1000 then take 1000 x else x)
                    in text_parts @ [''Content: '' @ text_content])
                 else text_parts);
          text_parts =
            (if text_parts = [] then text_parts @ [req_url request] else text_parts)
      in text_parts)"

definition prepare_text_for_analysis :: "PhishingAnalysisRequest \<Rightarrow> string" where
  "prepare_text_for_analysis request = join '' '' (text_parts request)"

subsection \<open>Model state and its loading\<close>

datatype device = Cuda | Cpu

text \<open>\<open>str(device)\<close>, for the global that is \<open>None\<close> until \<open>load_model\<close> sets it.\<close>

definition str_device :: "device option \<Rightarrow> string" where
  "str_device d = (case d of None \<Rightarrow> ''None'' | Some Cuda \<Rightarrow> ''cuda'' | Some Cpu \<Rightarrow> ''cpu'')"

text \<open>The module's globals \<open>model\<close>, \<open>tokenizer\<close>, \<open>device\<close>, all \<open>None\<close> at import.\<close>

record ('t, 'm) globals =
  model :: "'m option"
  tokenizer :: "'t option"
  device :: "device option"

definition initial_globals :: "('t, 'm) globals" where
  "initial_globals = \<lparr>model = None, tokenizer = None, device = None\<rparr>"

text \<open>
  What the services consume from torch and transformers, taken as parameters: whether
  CUDA is there, the two \<open>from_pretrained\<close> loaders, \<open>model.to(device)\<close> followed by
  \<open>model.eval()\<close>, the tokenizer call (with its truncation and padding arguments), the
  move of the inputs to the device, the forward pass giving the logits, and softmax over
  the last dimension. A tensor of shape [batch, classes] is a list of rows.
\<close>

record ('t, 'm, 'i) runtime =
  cuda_is_available :: bool
  tokenizer_from_pretrained :: "string \<Rightarrow> exn + 't"
  model_from_pretrained :: "string \<Rightarrow> exn + 'm"
  model_to_eval :: "'m \<Rightarrow> device \<Rightarrow> exn + 'm"
  call_tokenizer :: "'t \<Rightarrow> string \<Rightarrow> exn + 'i"
  inputs_to :: "'i \<Rightarrow> device option \<Rightarrow> exn + 'i"
  call_model :: "'m \<Rightarrow> 'i \<Rightarrow> exn + real list list"
  softmax :: "real list list \<Rightarrow> real list list"

text \<open>\<open>load_model\<close> assigns the globals one after the other, so a load that raises
  leaves the assignments made so far; the exception is re-raised.\<close>

definition load_model ::
  "('t, 'm, 'i) runtime \<Rightarrow> ('t, 'm) globals \<Rightarrow> (exn + unit) \<times> ('t, 'm) globals" where
  "load_model rt g =
     (let dev = (if cuda_is_available rt then Cuda else Cpu);
          g = g\<lparr>device := Some dev\<rparr>;
          model_name = ''ealvaradob/bert-finetuned-phishing''
      in case tokenizer_from_pretrained rt model_name of
           Inl e \<Rightarrow> (Inl e, g)
         | Inr tok \<Rightarrow>
            (let g = g\<lparr>tokenizer := Some tok\<rparr>
             in case model_from_pretrained rt model_name of
                  Inl e \<Rightarrow> (Inl e, g)
                | Inr m \<Rightarrow>
                   (let g = g\<lparr>model := Some m\<rparr>
                    in case model_to_eval rt m dev of
                         Inl e \<Rightarrow> (Inl e, g)
                       | Inr m' \<Rightarrow> (Inr (), g\<lparr>model := Some m'\<rparr>))))"

subsection \<open>Health check\<close>

record health =
  status :: string
  service :: string
  model_loaded :: bool
  health_device :: string

definition health_check :: "('t, 'm) globals \<Rightarrow> health" where
  "health_check g =
     \<lparr>status = ''healthy'',
      service = ''ml-phishing-detector'',
      model_loaded = (model g \<noteq> None),
      health_device = (if device g \<noteq> None then str_device (device g) else ''unknown'')\<rparr>"

subsection \<open>Inference\<close>

text \<open>\<open>torch.argmax\<close> over one row: the index of the first maximal value; an empty
  row raises.\<close>

fun argmax_from :: "nat \<Rightarrow> real \<Rightarrow> nat \<Rightarrow> real list \<Rightarrow> nat" where
  "argmax_from best bv i [] = best"
| "argmax_from best bv i (x # xs) =
     (if x > bv then argmax_from i x (Suc i) xs else argmax_from best bv (Suc i) xs)"

definition argmax :: "real list \<Rightarrow> exn + nat" where
  "argmax row =
     (case row of
        [] \<Rightarrow> Inl (PyError ''IndexError'' ''argmax(): expected reduction dim to have non-zero size'')
      | x # xs \<Rightarrow> Inr (argmax_from 0 x 1 xs))"

text \<open>\<open>torch.argmax(probabilities, dim=-1)\<close>: one index for each row.\<close>

fun argmax_rows :: "real list list \<Rightarrow> exn + nat list" where
  "argmax_rows [] = Inr []"
| "argmax_rows (row # rows) =
     (case argmax row of
        Inl e \<Rightarrow> Inl e
      | Inr i \<Rightarrow> (case argmax_rows rows of Inl e \<Rightarrow> Inl e | Inr is \<Rightarrow> Inr (i # is)))"

text \<open>\<open>.item()\<close> of a tensor: its only element, and an error for any other size.\<close>

definition item :: "'a list \<Rightarrow> exn + 'a" where
  "item xs =
     (case xs of
        [x] \<Rightarrow> Inr x
      | _ \<Rightarrow> Inl (PyError ''RuntimeError'' ''a Tensor with several elements cannot be converted to Scalar''))"

text \<open>Indexing with an index that is not negative.\<close>

definition getitem :: "'a list \<Rightarrow> nat \<Rightarrow> exn + 'a" where
  "getitem xs i =
     (if i < length xs then Inr (xs ! i)
      else Inl (PyError ''IndexError'' ''index out of range''))"

text \<open>Calling a global that is still \<open>None\<close> raises \<open>TypeError\<close>.\<close>

definition none_call :: exn where
  "none_call = PyError ''TypeError'' ''NoneType object is not callable''"

text \<open>\<open>_run_inference\<close>. Its \<open>except\<close> clause logs and re-raises the exception it
  caught, so every error passes through unchanged.\<close>

definition run_inference ::
  "('t, 'm, 'i) runtime \<Rightarrow> ('t, 'm) globals \<Rightarrow> string \<Rightarrow> exn + (bool \<times> real \<times> real)" where
  "run_inference rt g txt =
     (case tokenizer g of
        None \<Rightarrow> Inl none_call
      | Some tok \<Rightarrow>
     (case call_tokenizer rt tok txt of
        Inl e \<Rightarrow> Inl e
      | Inr inputs \<Rightarrow>
     (case inputs_to rt inputs (device g) of
        Inl e \<Rightarrow> Inl e
      | Inr inputs \<Rightarrow>
     (case model g of
        None \<Rightarrow> Inl none_call
      | Some m \<Rightarrow>
     (case call_model rt m inputs of
        Inl e \<Rightarrow> Inl e
      | Inr logits \<Rightarrow>
     (let probabilities = softmax rt logits
      in case argmax_rows probabilities of
        Inl e \<Rightarrow> Inl e
      | Inr am \<Rightarrow>
     (case item am of
        Inl e \<Rightarrow> Inl e
      | Inr prediction \<Rightarrow>
     (case getitem probabilities 0 of
        Inl e \<Rightarrow> Inl e
      | Inr row \<Rightarrow>
     (case getitem row prediction of
        Inl e \<Rightarrow> Inl e
      | Inr confidence \<Rightarrow>
     (case getitem row 1 of
        Inl e \<Rightarrow> Inl e
      | Inr risk_score \<Rightarrow>
          (let is_phishing = (prediction = 1)
           in Inr (is_phishing, confidence, risk_score))))))))))))"

subsection \<open>Response message\<close>

definition warning_sign :: string where
  "warning_sign = [CHR 0xE2, CHR 0x9A, CHR 0xA0, CHR 0xEF, CHR 0xB8, CHR 0x8F]"

definition check_mark :: string where
  "check_mark = [CHR 0xE2, CHR 0x9C, CHR 0x85]"

text \<open>\<open>_generate_response_message\<close>. The parameter \<open>fmt\<close> is Python's rendering of the
  replacement field \<open>{confidence:.1%}\<close>. The argument \<open>url\<close> is not used.\<close>

definition generate_response_message :: "(real \<Rightarrow> string) \<Rightarrow> bool \<Rightarrow> real \<Rightarrow> string \<Rightarrow> string" where
  "generate_response_message fmt is_phishing confidence url =
     (if is_phishing then
        (if confidence > 0.8 then
           warning_sign @ '' HIGH RISK: This link appears to be a phishing attempt with ''
             @ fmt confidence @ '' confidence. Proceed with extreme caution.''
         else if confidence > 0.6 then
           warning_sign @ '' SUSPICIOUS: This link shows signs of phishing with ''
             @ fmt confidence @ '' confidence. Consider avoiding this link.''
         else
           warning_sign @ '' POTENTIAL RISK: This link has some suspicious characteristics with ''
             @ fmt confidence @ '' confidence.'')
      else
        (if confidence > 0.8 then
           check_mark @ '' SAFE: This link appears legitimate with ''
             @ fmt confidence @ '' confidence.''
         else if confidence > 0.6 then
           check_mark @ '' LIKELY SAFE: This link appears to be legitimate with ''
             @ fmt confidence @ '' confidence.''
         else
           warning_sign @ '' UNCERTAIN: Unable to determine with high confidence. Proceed with caution.''))"

text \<open>
  The format specification \<open>.1%\<close> on the real value of the float: the value times 100,
  rounded to one decimal place (a tie goes to the even digit), in fixed-point notation
  with a percent sign. It instantiates \<open>fmt\<close> where a concrete rendering is computed.
\<close>

definition round_half_even :: "real \<Rightarrow> int" where
  "round_half_even x =
     (let f = \<lfloor>x\<rfloor>; d = x - of_int f
      in if d < 1 / 2 then f else if d > 1 / 2 then f + 1 else if even f then f else f + 1)"

definition digit :: "nat \<Rightarrow> char" where
  "digit d = ''0123456789'' ! d"

fun str_nat :: "nat \<Rightarrow> string" where
  "str_nat n = (if n < 10 then [digit n] else str_nat (n div 10) @ [digit (n mod 10)])"

declare str_nat.simps [simp del]

definition format_percent1 :: "real \<Rightarrow> string" where
  "format_percent1 c =
     (let n = nat (round_half_even (\<bar>c\<bar> * 1000))
      in (if c < 0 then ''-'' else []) @ str_nat (n div 10) @ ''.'' @ [digit (n mod 10)] @ ''%'')"

subsection \<open>The handler of POST /analyze\<close>

record analysis_details =
  model_used :: string
  analysis_text :: string
  device_name :: string

record PhishingAnalysisResponse =
  is_phishing :: bool
  confidence :: real
  risk_score :: real
  message :: string
  details :: "analysis_details option"

text \<open>\<open>analyze_phishing\<close>. The parameter \<open>str_exn\<close> is \<open>str(e)\<close> of the exception caught.
  The whole body, the readiness check included, stands inside the \<open>try\<close>.\<close>

definition analyze_phishing ::
  "(exn \<Rightarrow> string) \<Rightarrow> (real \<Rightarrow> string) \<Rightarrow> ('t, 'm, 'i) runtime \<Rightarrow> ('t, 'm) globals \<Rightarrow>
   PhishingAnalysisRequest \<Rightarrow> exn + PhishingAnalysisResponse" where
  "analyze_phishing str_exn fmt rt g request =
     try_except
       (if model g = None \<or> tokenizer g = None then
          Inl (HTTPException 503 ''Model not loaded'')
        else
          (let prepared = prepare_text_for_analysis request
           in case run_inference rt g prepared of
                Inl e \<Rightarrow> Inl e
              | Inr (p, c, r) \<Rightarrow>
                  (let msg = generate_response_message fmt p c (req_url request);
                       det = \<lparr>model_used = ''ealvaradob/bert-finetuned-phishing'',
                              analysis_text = prepared,
                              device_name = str_device (device g)\<rparr>
                   in Inr \<lparr>is_phishing = p, confidence = c, risk_score = r,
                           message = msg, details = Some det\<rparr>)))
       (\<lambda>e. Inl (HTTPException 500 (''Analysis failed: '' @ str_exn e)))"

section \<open>The alternate service (ai/ml-inference/main.py)\<close>

text \<open>The attributes \<open>app.tokenizer\<close> and \<open>app.model\<close>, which exist once the startup
  hook has set them.\<close>

record ('t, 'm) app_state =
  app_tokenizer :: "'t option"
  app_model :: "'m option"

definition attribute_error :: exn where
  "attribute_error = PyError ''AttributeError'' ''FastAPI object has no such attribute''"

text \<open>What \<open>float(...)\<close> is applied to: a number, or the bound method \<open>item\<close> of a
  tensor element that was looked up and not called.\<close>

datatype pyobj = PyFloat real | BoundItemMethod real

text \<open>Calling the object: the bound method returns the element's value, a number is
  not callable.\<close>

definition py_call :: "pyobj \<Rightarrow> exn + pyobj" where
  "py_call f =
     (case f of
        BoundItemMethod x \<Rightarrow> Inr (PyFloat x)
      | PyFloat x \<Rightarrow> Inl (PyError ''TypeError'' ''float object is not callable''))"

definition py_float :: "pyobj \<Rightarrow> exn + real" where
  "py_float v =
     (case v of
        PyFloat x \<Rightarrow> Inr x
      | BoundItemMethod x \<Rightarrow>
          Inl (PyError ''TypeError'' ''float() argument must be a string or a real number''))"

record PredictResponse =
  phishing_probability :: real
  prediction :: string

text \<open>\<open>predict\<close>: \<open>float\<close> is applied to \<open>probabilities[1].item\<close>, the attribute itself.\<close>

definition predict ::
  "(exn \<Rightarrow> string) \<Rightarrow> ('t, 'm, 'i) runtime \<Rightarrow> ('t, 'm) app_state \<Rightarrow> string \<Rightarrow>
   exn + PredictResponse" where
  "predict str_exn rt app txt =
     try_except
       (case app_tokenizer app of
          None \<Rightarrow> Inl attribute_error
        | Some tok \<Rightarrow>
       (case call_tokenizer rt tok txt of
          Inl e \<Rightarrow> Inl e
        | Inr inputs \<Rightarrow>
       (case app_model app of
          None \<Rightarrow> Inl attribute_error
        | Some m \<Rightarrow>
       (case call_model rt m inputs of
          Inl e \<Rightarrow> Inl e
        | Inr logits \<Rightarrow>
       (case getitem (softmax rt logits) 0 of
          Inl e \<Rightarrow> Inl e
        | Inr probabilities \<Rightarrow>
       (case getitem probabilities 1 of
          Inl e \<Rightarrow> Inl e
        | Inr p1 \<Rightarrow>
       (case py_float (BoundItemMethod p1) of
          Inl e \<Rightarrow> Inl e
        | Inr phishing_prob \<Rightarrow>
            Inr \<lparr>phishing_probability = phishing_prob,
                 prediction = (if phishing_prob > 0.5 then ''phishing'' else ''not phishing'')\<rparr>)))))))
       (\<lambda>e. Inl (HTTPException 500 (str_exn e)))"

section \<open>Notions the properties are stated with\<close>

text \<open>The Title and Content segments of a request, each a list of no or one element:
  a field is present when it is given and not the empty string.\<close>

definition title_segment :: "PhishingAnalysisRequest \<Rightarrow> string list" where
  "title_segment request =
     (case req_title request of
        None \<Rightarrow> []
      | Some t \<Rightarrow> if t \<noteq> [] then [''Title: '' @ t] else [])"

definition content_segment :: "PhishingAnalysisRequest \<Rightarrow> string list" where
  "content_segment request =
     (case req_text request of
        None \<Rightarrow> []
      | Some x \<Rightarrow> if x \<noteq> [] then [''Content: '' @ take 1000 x] else [])"

text \<open>The tier of a message: what stands between the first space and the first colon
  after it.\<close>

definition message_tier :: "string \<Rightarrow> string" where
  "message_tier msg =
     takeWhile (\<lambda>c. c \<noteq> CHR '':'') (drop 1 (dropWhile (\<lambda>c. c \<noteq> CHR '' '') msg))"

text \<open>A runtime in which every call succeeds and softmax returns the row \<open>[p0, p1]\<close>,
  and the globals of a loaded model, for evaluating the functions on a concrete input.\<close>

definition example_runtime :: "real \<Rightarrow> real \<Rightarrow> (unit, unit, string) runtime" where
  "example_runtime p0 p1 =
     \<lparr>cuda_is_available = False,
      tokenizer_from_pretrained = (\<lambda>name. Inr ()),
      model_from_pretrained = (\<lambda>name. Inr ()),
      model_to_eval = (\<lambda>m d. Inr m),
      call_tokenizer = (\<lambda>tok txt. Inr txt),
      inputs_to = (\<lambda>inputs d. Inr inputs),
      call_model = (\<lambda>m inputs. Inr [[0, 0]]),
      softmax = (\<lambda>logits. [[p0, p1]])\<rparr>"

definition loaded_globals :: "(unit, unit) globals" where
  "loaded_globals = \<lparr>model = Some (), tokenizer = Some (), device = Some Cpu\<rparr>"

section \<open>Properties\<close>

subsection \<open>Auxiliary facts\<close>

lemma join_Cons_nonempty: "x \<noteq> [] \<Longrightarrow> join sep (x # xs) \<noteq> []"
  by (cases xs) simp_all

lemma text_parts_with_url:
  "req_url request \<noteq> [] \<Longrightarrow>
   text_parts request =
     (''URL: '' @ req_url request) # title_segment request @ content_segment request"
  by (simp add: text_parts_def title_segment_def content_segment_def Let_def
      split: option.splits)

lemma sublist_between: "sublist x (a @ b @ x @ s)"
  using sublist_appendI [of x "a @ b" s] by simp

subsection \<open>The prepared text is not empty\<close>

text \<open>
  C7. For every request whose url is a non-empty string, whatever title and text are,
  the string that \<open>_prepare_text_for_analysis\<close> returns is not empty.
\<close>

theorem prepare_text_nonempty:
  "req_url request \<noteq> [] \<Longrightarrow> prepare_text_for_analysis request \<noteq> []"
  by (simp add: prepare_text_for_analysis_def text_parts_with_url join_Cons_nonempty)

theorem prepare_text_nonempty_witness:
  "req_url \<lparr>req_url = ''https://www.google.com'', req_text = None, req_title = Some ''Google''\<rparr> \<noteq> []
   \<and> prepare_text_for_analysis
        \<lparr>req_url = ''https://www.google.com'', req_text = None, req_title = Some ''Google''\<rparr> \<noteq> []"
  using prepare_text_nonempty
    [of "\<lparr>req_url = ''https://www.google.com'', req_text = None, req_title = Some ''Google''\<rparr>"]
  by simp

subsection \<open>The handler when the model is not loaded\<close>

text \<open>
  C1. When \<open>model\<close> or \<open>tokenizer\<close> is \<open>None\<close>, \<open>analyze_phishing\<close> raises the 503
  "Model not loaded" inside its own \<open>try\<close>; the \<open>except Exception\<close> clause catches it and
  raises the 500 "Analysis failed: ..." in its place. So the answer to every such request
  is the 500, and never the 503.
\<close>

theorem analyze_not_loaded_answers_500:
  "analyze_phishing str_exn fmt rt (g\<lparr>model := None\<rparr>) request
     = Inl (HTTPException 500 (''Analysis failed: '' @ str_exn (HTTPException 503 ''Model not loaded'')))
   \<and> analyze_phishing str_exn fmt rt (g\<lparr>tokenizer := None\<rparr>) request
     = Inl (HTTPException 500 (''Analysis failed: '' @ str_exn (HTTPException 503 ''Model not loaded'')))
   \<and> analyze_phishing str_exn fmt rt (g\<lparr>model := None\<rparr>) request
     \<noteq> Inl (HTTPException 503 ''Model not loaded'')
   \<and> analyze_phishing str_exn fmt rt (g\<lparr>tokenizer := None\<rparr>) request
     \<noteq> Inl (HTTPException 503 ''Model not loaded'')"
  by (simp add: analyze_phishing_def try_except_def)

subsection \<open>A request with the url alone\<close>

text \<open>
  C2. The function ends with a fallback, commented "If no text content, use URL as
  primary analysis target", that appends the bare url when \<open>text_parts\<close> is empty. For a
  non-empty url the list already holds the labelled segment by then, so the fallback
  does not run: with title and text both absent the prepared text is \<open>URL: \<close> followed
  by the url, and it is not the url itself.
\<close>

theorem url_only_labelled:
  "req_url request \<noteq> [] \<Longrightarrow> req_title request = None \<Longrightarrow> req_text request = None \<Longrightarrow>
   prepare_text_for_analysis request = ''URL: '' @ req_url request
   \<and> prepare_text_for_analysis request \<noteq> req_url request"
proof -
  assume "req_url request \<noteq> []" "req_title request = None" "req_text request = None"
  then have p: "prepare_text_for_analysis request = ''URL: '' @ req_url request"
    by (simp add: prepare_text_for_analysis_def text_parts_def)
  have "length (''URL: '' @ req_url request) \<noteq> length (req_url request)"
    by simp
  then have "''URL: '' @ req_url request \<noteq> req_url request"
    by metis
  with p show ?thesis
    by simp
qed

theorem url_only_labelled_witness:
  "prepare_text_for_analysis
     \<lparr>req_url = ''https://paypal-security-update.ml/login'', req_text = None, req_title = None\<rparr>
     = ''URL: https://paypal-security-update.ml/login''
   \<and> prepare_text_for_analysis
     \<lparr>req_url = ''https://paypal-security-update.ml/login'', req_text = None, req_title = None\<rparr>
     \<noteq> ''https://paypal-security-update.ml/login''"
  using url_only_labelled
    [of "\<lparr>req_url = ''https://paypal-security-update.ml/login'', req_text = None, req_title = None\<rparr>"]
  by simp

subsection \<open>Order of the segments, and truncation\<close>

text \<open>
  C3. For every request with a non-empty url, the segments are the URL segment, then the
  Title segment when a title is present, then the Content segment when a text is present
  (present: given and not the empty string); the prepared text joins them with one
  space; and for a text longer than 1000 characters the Content segment holds the label
  and exactly the first 1000 characters of the text.
\<close>

theorem prepare_text_segments:
  "req_url request \<noteq> [] \<Longrightarrow>
   text_parts request
     = [''URL: '' @ req_url request] @ title_segment request @ content_segment request
   \<and> prepare_text_for_analysis request
     = join '' '' ([''URL: '' @ req_url request] @ title_segment request @ content_segment request)
   \<and> (\<forall>x. req_text request = Some x \<longrightarrow> 1000 < length x \<longrightarrow>
         content_segment request = [''Content: '' @ take 1000 x] \<and> length (take 1000 x) = 1000)
   \<and> (\<forall>t x. req_title request = Some t \<longrightarrow> t \<noteq> [] \<longrightarrow> req_text request = Some x \<longrightarrow> x \<noteq> [] \<longrightarrow>
         prepare_text_for_analysis request
           = ''URL: '' @ req_url request @ '' Title: '' @ t @ '' Content: '' @ take 1000 x)"
  by (auto simp add: prepare_text_for_analysis_def text_parts_with_url title_segment_def content_segment_def)

theorem prepare_text_segments_witness:
  "text_parts \<lparr>req_url = ''https://www.google.com'', req_text = Some (replicate 1001 (CHR ''a'')),
               req_title = Some ''Google''\<rparr>
     = [''URL: https://www.google.com'', ''Title: Google'', ''Content: '' @ replicate 1000 (CHR ''a'')]
   \<and> prepare_text_for_analysis
       \<lparr>req_url = ''https://www.google.com'', req_text = Some (replicate 1001 (CHR ''a'')),
        req_title = Some ''Google''\<rparr>
     = ''URL: https://www.google.com Title: Google Content: '' @ replicate 1000 (CHR ''a'')"
  using prepare_text_segments
    [of "\<lparr>req_url = ''https://www.google.com'', req_text = Some (replicate 1001 (CHR ''a'')),
          req_title = Some ''Google''\<rparr>"]
  by (simp add: title_segment_def content_segment_def)

subsection \<open>Message tiers\<close>

text \<open>
  C4. For every flag and confidence the tier of the message follows the table: phishing
  above 0.8 HIGH RISK, in (0.6, 0.8] SUSPICIOUS, at most 0.6 POTENTIAL RISK; not
  phishing above 0.8 SAFE, in (0.6, 0.8] LIKELY SAFE, at most 0.6 UNCERTAIN. A
  confidence of exactly 0.8 gives SUSPICIOUS and LIKELY SAFE.
\<close>

theorem message_tier_table:
  "(b \<and> c > 0.8 \<longrightarrow> message_tier (generate_response_message fmt b c u) = ''HIGH RISK'') \<and>
   (b \<and> 0.6 < c \<and> c \<le> 0.8 \<longrightarrow> message_tier (generate_response_message fmt b c u) = ''SUSPICIOUS'') \<and>
   (b \<and> c \<le> 0.6 \<longrightarrow> message_tier (generate_response_message fmt b c u) = ''POTENTIAL RISK'') \<and>
   (\<not> b \<and> c > 0.8 \<longrightarrow> message_tier (generate_response_message fmt b c u) = ''SAFE'') \<and>
   (\<not> b \<and> 0.6 < c \<and> c \<le> 0.8 \<longrightarrow> message_tier (generate_response_message fmt b c u) = ''LIKELY SAFE'') \<and>
   (\<not> b \<and> c \<le> 0.6 \<longrightarrow> message_tier (generate_response_message fmt b c u) = ''UNCERTAIN'') \<and>
   message_tier (generate_response_message fmt True 0.8 u) = ''SUSPICIOUS'' \<and>
   message_tier (generate_response_message fmt False 0.8 u) = ''LIKELY SAFE''"
  by (simp add: generate_response_message_def message_tier_def warning_sign_def check_mark_def)

theorem message_tier_table_witness:
  "message_tier (generate_response_message format_percent1 True (9 / 10) ''u'') = ''HIGH RISK'' \<and>
   message_tier (generate_response_message format_percent1 True (7 / 10) ''u'') = ''SUSPICIOUS'' \<and>
   message_tier (generate_response_message format_percent1 True (6 / 10) ''u'') = ''POTENTIAL RISK'' \<and>
   message_tier (generate_response_message format_percent1 False (9 / 10) ''u'') = ''SAFE'' \<and>
   message_tier (generate_response_message format_percent1 False (7 / 10) ''u'') = ''LIKELY SAFE'' \<and>
   message_tier (generate_response_message format_percent1 False (6 / 10) ''u'') = ''UNCERTAIN''"
  using message_tier_table [of True "9 / 10" format_percent1 "''u''"]
    message_tier_table [of True "7 / 10" format_percent1 "''u''"]
    message_tier_table [of True "6 / 10" format_percent1 "''u''"]
    message_tier_table [of False "9 / 10" format_percent1 "''u''"]
    message_tier_table [of False "7 / 10" format_percent1 "''u''"]
    message_tier_table [of False "6 / 10" format_percent1 "''u''"]
  by simp

subsection \<open>Confidence and risk score\<close>

text \<open>
  C5. When tokenizer and model are loaded, their calls succeed and softmax returns one
  row of two probabilities \<open>p0\<close>, \<open>p1\<close> with \<open>p0 + p1 = 1\<close>, then \<open>_run_inference\<close> returns
  a result whose flag says that class 1 is the argmax, whose risk score is \<open>p1\<close> whatever
  the flag, and whose confidence is the risk score when the flag is true and one minus
  the risk score when it is false.
\<close>

theorem run_inference_two_classes:
  assumes "tokenizer g = Some tok"
    and "call_tokenizer rt tok txt = Inr inputs"
    and "inputs_to rt inputs (device g) = Inr inputs'"
    and "model g = Some m"
    and "call_model rt m inputs' = Inr logits"
    and "softmax rt logits = [[p0, p1]]"
    and "p0 + p1 = 1"
  shows "\<exists>c r. run_inference rt g txt = Inr (p0 < p1, c, r)
           \<and> r = p1 \<and> (p0 < p1 \<longrightarrow> c = r) \<and> (\<not> p0 < p1 \<longrightarrow> c = 1 - r)"
proof (cases "p0 < p1")
  case True
  with assms have "run_inference rt g txt = Inr (True, p1, p1)"
    by (simp add: run_inference_def argmax_def item_def getitem_def)
  with True show ?thesis by simp
next
  case False
  with assms have "run_inference rt g txt = Inr (False, p0, p1)"
    by (simp add: run_inference_def argmax_def item_def getitem_def)
  moreover from assms have "p0 = 1 - p1" by simp
  ultimately show ?thesis using False by simp
qed

theorem run_inference_two_classes_witness:
  "run_inference (example_runtime (1 / 4) (3 / 4)) loaded_globals ''URL: https://www.google.com''
     = Inr (True, 3 / 4, 3 / 4)
   \<and> run_inference (example_runtime (7 / 10) (3 / 10)) loaded_globals ''URL: https://www.google.com''
     = Inr (False, 1 - 3 / 10, 3 / 10)"
  using run_inference_two_classes
      [of loaded_globals "()" "example_runtime (1 / 4) (3 / 4)" "''URL: https://www.google.com''"
          "''URL: https://www.google.com''" "''URL: https://www.google.com''" "()" "[[0, 0]]"
          "1 / 4" "3 / 4"]
    run_inference_two_classes
      [of loaded_globals "()" "example_runtime (7 / 10) (3 / 10)" "''URL: https://www.google.com''"
          "''URL: https://www.google.com''" "''URL: https://www.google.com''" "()" "[[0, 0]]"
          "7 / 10" "3 / 10"]
  by (auto simp add: example_runtime_def loaded_globals_def)

subsection \<open>The confidence in the message text\<close>

text \<open>
  C6, as stated: every tier's message contains the formatted confidence. It fails for
  the UNCERTAIN tier: at not phishing with confidence 0.55 the rendering is \<open>55.0%\<close> and
  the message is a fixed text without it.
\<close>

theorem uncertain_message_counterexample:
  "\<not> sublist (format_percent1 (55 / 100))
       (generate_response_message format_percent1 False (55 / 100) ''https://www.google.com'')"
proof
  assume a: "sublist (format_percent1 (55 / 100))
       (generate_response_message format_percent1 False (55 / 100) ''https://www.google.com'')"
  have f: "format_percent1 (55 / 100) = ''55.0%''"
    by (simp add: format_percent1_def round_half_even_def str_nat.simps digit_def Let_def)
  have m: "generate_response_message format_percent1 False (55 / 100) ''https://www.google.com''
      = warning_sign @ '' UNCERTAIN: Unable to determine with high confidence. Proceed with caution.''"
    by (simp add: generate_response_message_def)
  from a have "sublist ''55.0%''
      (warning_sign @ '' UNCERTAIN: Unable to determine with high confidence. Proceed with caution.'')"
    unfolding f m .
  then have "set ''55.0%''
      \<subseteq> set (warning_sign @ '' UNCERTAIN: Unable to determine with high confidence. Proceed with caution.'')"
    by (rule set_mono_sublist)
  then show False
    by (simp add: warning_sign_def)
qed

text \<open>
  C6, amended: for every flag and confidence outside the UNCERTAIN tier (phishing, or
  confidence above 0.6) the message contains the confidence as the replacement field
  \<open>{confidence:.1%}\<close> renders it; in the UNCERTAIN tier (not phishing, confidence at most 0.6)
  the message is one fixed text, whatever the confidence.
\<close>

theorem message_contains_confidence:
  "(is_ph \<or> 0.6 < c \<longrightarrow> sublist (fmt c) (generate_response_message fmt is_ph c u))
   \<and> (\<not> is_ph \<and> c \<le> 0.6 \<longrightarrow>
        generate_response_message fmt is_ph c u
          = warning_sign @ '' UNCERTAIN: Unable to determine with high confidence. Proceed with caution.'')"
proof (intro conjI impI)
  assume "is_ph \<or> 0.6 < c"
  then show "sublist (fmt c) (generate_response_message fmt is_ph c u)"
    unfolding generate_response_message_def
    by (cases is_ph; cases "0.8 < c"; cases "0.6 < c")
       (simp_all only: if_True if_False sublist_between, simp_all)
next
  assume "\<not> is_ph \<and> c \<le> 0.6"
  then show "generate_response_message fmt is_ph c u
      = warning_sign @ '' UNCERTAIN: Unable to determine with high confidence. Proceed with caution.''"
    by (simp add: generate_response_message_def)
qed

theorem message_contains_confidence_witness:
  "sublist ''55.0%''
     (generate_response_message format_percent1 True (55 / 100) ''https://www.google.com'')
   \<and> generate_response_message format_percent1 False (55 / 100) ''https://www.google.com''
       = warning_sign @ '' UNCERTAIN: Unable to determine with high confidence. Proceed with caution.''"
proof -
  have f: "format_percent1 (55 / 100) = ''55.0%''"
    by (simp add: format_percent1_def round_half_even_def str_nat.simps digit_def Let_def)
  have "sublist (format_percent1 (55 / 100))
      (generate_response_message format_percent1 True (55 / 100) ''https://www.google.com'')"
    using message_contains_confidence
      [of True "55 / 100" format_percent1 "''https://www.google.com''"]
    by simp
  moreover have "generate_response_message format_percent1 False (55 / 100) ''https://www.google.com''
      = warning_sign @ '' UNCERTAIN: Unable to determine with high confidence. Proceed with caution.''"
    using message_contains_confidence
      [of False "55 / 100" format_percent1 "''https://www.google.com''"]
    by simp
  ultimately show ?thesis
    unfolding f by simp
qed

subsection \<open>Health check\<close>

text \<open>
  C8. \<open>health_check\<close> answers with status \<open>healthy\<close>, with \<open>model_loaded\<close> telling whether
  the global \<open>model\<close> is set (false for the globals as they are before loading, true for
  the globals a successful \<open>load_model\<close> leaves), and with a device string: the name of
  the device, or \<open>unknown\<close> while no device is set.
\<close>

theorem health_check_reflects_model:
  "status (health_check (g :: ('t, 'm) globals)) = ''healthy''
   \<and> model_loaded (health_check g) = (model g \<noteq> None)
   \<and> \<not> model_loaded (health_check (initial_globals :: ('t, 'm) globals))
   \<and> health_device (health_check g)
       = (case device g of None \<Rightarrow> ''unknown'' | Some Cuda \<Rightarrow> ''cuda'' | Some Cpu \<Rightarrow> ''cpu'')
   \<and> (\<forall>g'. load_model rt g = (Inr (), g') \<longrightarrow>
         model_loaded (health_check g')
         \<and> health_device (health_check g') = (if cuda_is_available rt then ''cuda'' else ''cpu''))"
  by (auto simp add: health_check_def initial_globals_def load_model_def str_device_def Let_def
      split: sum.splits option.splits device.splits)

theorem health_check_reflects_model_witness:
  "\<not> model_loaded (health_check (initial_globals :: (unit, unit) globals))
   \<and> fst (load_model (example_runtime (1 / 4) (3 / 4)) initial_globals) = Inr ()
   \<and> model_loaded (health_check (snd (load_model (example_runtime (1 / 4) (3 / 4)) initial_globals)))
   \<and> health_device (health_check (snd (load_model (example_runtime (1 / 4) (3 / 4)) initial_globals)))
       = ''cpu''"
proof -
  have l: "load_model (example_runtime (1 / 4) (3 / 4)) initial_globals
      = (Inr (), \<lparr>model = Some (), tokenizer = Some (), device = Some Cpu\<rparr>)"
    by (simp add: load_model_def example_runtime_def initial_globals_def)
  have c: "\<not> cuda_is_available (example_runtime (1 / 4) (3 / 4))"
    by (simp add: example_runtime_def)
  from health_check_reflects_model
      [of "initial_globals :: (unit, unit) globals" "example_runtime (1 / 4) (3 / 4)"]
  have "\<not> model_loaded (health_check (initial_globals :: (unit, unit) globals))
      \<and> (\<forall>g'. load_model (example_runtime (1 / 4) (3 / 4)) initial_globals = (Inr (), g') \<longrightarrow>
            model_loaded (health_check g')
            \<and> health_device (health_check g')
                = (if cuda_is_available (example_runtime (1 / 4) (3 / 4)) then ''cuda'' else ''cpu''))"
    by blast
  then show ?thesis
    by (simp add: l c)
qed

subsection \<open>The empty url\<close>

text \<open>
  C9. Validation rejects a body exactly when it has no url, so the url \<open>""\<close> passes.
  For that url with title and text absent the prepared text is the empty string; when
  a title or a text is present the prepared text is made of their segments alone; and
  in no case does a segment of an empty url start with the \<open>URL: \<close> label.
\<close>

theorem empty_url_accepted:
  "validate_request \<lparr>raw_url = Some [], raw_text = x, raw_title = t\<rparr>
     = Inr \<lparr>req_url = [], req_text = x, req_title = t\<rparr>
   \<and> ((\<exists>e. validate_request b = Inl e) = (raw_url b = None))
   \<and> prepare_text_for_analysis \<lparr>req_url = [], req_text = None, req_title = None\<rparr> = []
   \<and> (req_url request = [] \<longrightarrow> truthy (req_title request) \<or> truthy (req_text request) \<longrightarrow>
        text_parts request = title_segment request @ content_segment request
        \<and> prepare_text_for_analysis request
            = join '' '' (title_segment request @ content_segment request))
   \<and> (req_url request = [] \<longrightarrow> (\<forall>s \<in> set (text_parts request). \<not> prefix ''URL: '' s))"
  by (auto simp add: validate_request_def prepare_text_for_analysis_def text_parts_def truthy_def
      title_segment_def content_segment_def Let_def split: option.splits)

theorem empty_url_accepted_witness:
  "validate_request \<lparr>raw_url = Some [], raw_text = Some ''Click here now!'', raw_title = Some ''Update''\<rparr>
     = Inr \<lparr>req_url = [], req_text = Some ''Click here now!'', req_title = Some ''Update''\<rparr>
   \<and> prepare_text_for_analysis \<lparr>req_url = [], req_text = Some ''Click here now!'', req_title = Some ''Update''\<rparr>
     = ''Title: Update Content: Click here now!''
   \<and> \<not> prefix ''URL: '' ''Title: Update''
   \<and> prepare_text_for_analysis \<lparr>req_url = [], req_text = None, req_title = None\<rparr> = []"
  using empty_url_accepted
    [of "Some ''Click here now!''" "Some ''Update''" "\<lparr>raw_url = None, raw_text = None, raw_title = None\<rparr>"
        "\<lparr>req_url = [], req_text = Some ''Click here now!'', req_title = Some ''Update''\<rparr>"]
  by (simp add: truthy_def title_segment_def content_segment_def)

subsection \<open>The alternate service's handler\<close>

text \<open>
  C10. Whatever the text, the runtime and the application state, \<open>predict\<close> answers with
  a 500 and never with a \<open>PredictResponse\<close>: \<open>float\<close> of the bound method raises
  \<open>TypeError\<close>, where \<open>float\<close> of its call result would have been the probability, and
  every exception raised before that point is turned into a 500 as well.
\<close>

theorem predict_always_500:
  "(\<exists>d. predict str_exn rt app txt = Inl (HTTPException 500 d))
   \<and> (\<forall>response. predict str_exn rt app txt \<noteq> Inr response)
   \<and> py_float (BoundItemMethod p)
       = Inl (PyError ''TypeError'' ''float() argument must be a string or a real number'')
   \<and> (case py_call (BoundItemMethod p) of Inl e \<Rightarrow> Inl e | Inr v \<Rightarrow> py_float v) = Inr p"
  by (auto simp add: predict_def try_except_def py_float_def py_call_def
      split: option.splits sum.splits)

end
